theory Spec2Isabelle
  imports Complex_Main "HOL-Library.AList" "HOL-Library.Word"
begin

section \<open>The data models of app.py\<close>

text \<open>
  \<^verbatim>\<open>class Item(BaseModel)\<close> declares \<^verbatim>\<open>name: str\<close>, \<^verbatim>\<open>description: str | None = None\<close>,
  \<^verbatim>\<open>price: float\<close> and \<^verbatim>\<open>tax: float | None = None\<close>. The declaration is enforced when a
  request body is parsed, but \<^verbatim>\<open>copy(update=...)\<close> builds an \<^verbatim>\<open>Item\<close> without validating it,
  so at run time every attribute of an \<^verbatim>\<open>Item\<close> object can hold \<^verbatim>\<open>None\<close>: the four attributes
  are options, and the declared schema is the predicate \<open>Item_schema\<close>.

  Prices and taxes are only stored and copied by the handlers, never computed with, so the
  type of floats is a parameter \<open>'f\<close> of the models and of the handlers. The routes, which
  render what a handler returns as JSON, use it at \<open>pyfloat\<close>.

  A string of the model is a text that encodes as UTF-8.
\<close>

record 'f Item =
  name :: "string option"
  description :: "string option"
  price :: "'f option"
  tax :: "'f option"

definition Item_schema :: "'f Item \<Rightarrow> bool" where
  "Item_schema i = (name i \<noteq> None \<and> price i \<noteq> None)"

text \<open>
  A Python \<^verbatim>\<open>float\<close> is a finite number or one of \<^verbatim>\<open>inf\<close>, \<^verbatim>\<open>-inf\<close> and \<^verbatim>\<open>nan\<close>. The three
  are values a request can carry: a JSON body with \<^verbatim>\<open>1e400\<close> parses to \<^verbatim>\<open>inf\<close> and passes the
  validation of \<^verbatim>\<open>price: float\<close>. The finite doubles are among the reals.
\<close>

datatype pyfloat = Finite real | PosInf | NegInf | NaN

fun is_finite :: "pyfloat \<Rightarrow> bool" where
  "is_finite (Finite x) = True"
| "is_finite PosInf = False"
| "is_finite NegInf = False"
| "is_finite NaN = False"

text \<open>
  \<^verbatim>\<open>class ItemUpdate(BaseModel)\<close> has the same four attributes, all \<^verbatim>\<open>... | None = None\<close>.
  A parsed model also records which attributes the body supplied (pydantic's set of
  fields set): a body \<^verbatim>\<open>{"tax": null}\<close> gives \<open>upd_tax = None\<close> with \<open>''tax''\<close> in
  \<open>fields_set\<close>, the body \<^verbatim>\<open>{}\<close> gives \<open>upd_tax = None\<close> with \<open>fields_set = {}\<close>.
\<close>

record 'f ItemUpdate =
  upd_name :: "string option"
  upd_description :: "string option"
  upd_price :: "'f option"
  upd_tax :: "'f option"
  fields_set :: "string set"

text \<open>
  \<^verbatim>\<open>item.dict(exclude_unset=True)\<close>: the dictionary of the attributes in \<open>fields_set\<close>. Each
  of the four possible keys is absent (\<open>None\<close>) or present with its value (\<open>Some v\<close>, where
  \<open>v = None\<close> is Python's \<^verbatim>\<open>None\<close>).
\<close>

record 'f update_dict =
  name_key :: "string option option"
  description_key :: "string option option"
  price_key :: "'f option option"
  tax_key :: "'f option option"

definition dict_exclude_unset :: "'f ItemUpdate \<Rightarrow> 'f update_dict" where
  "dict_exclude_unset item =
     \<lparr> name_key = (if ''name'' \<in> fields_set item then Some (upd_name item) else None),
       description_key =
         (if ''description'' \<in> fields_set item then Some (upd_description item) else None),
       price_key = (if ''price'' \<in> fields_set item then Some (upd_price item) else None),
       tax_key = (if ''tax'' \<in> fields_set item then Some (upd_tax item) else None) \<rparr>"

text \<open>
  \<^verbatim>\<open>stored.copy(update=d)\<close>: a new \<^verbatim>\<open>Item\<close> whose attributes are those of \<^verbatim>\<open>stored\<close>,
  overwritten by the entries of \<^verbatim>\<open>d\<close>. Nothing is validated.
\<close>

definition copy_update :: "'f Item \<Rightarrow> 'f update_dict \<Rightarrow> 'f Item" where
  "copy_update stored d =
     \<lparr> name = (case name_key d of Some v \<Rightarrow> v | None \<Rightarrow> name stored),
       description = (case description_key d of Some v \<Rightarrow> v | None \<Rightarrow> description stored),
       price = (case price_key d of Some v \<Rightarrow> v | None \<Rightarrow> price stored),
       tax = (case tax_key d of Some v \<Rightarrow> v | None \<Rightarrow> tax stored) \<rparr>"

section \<open>The in-memory database\<close>

text \<open>
  \<^verbatim>\<open>items: dict[int, Item] = {}\<close>. A Python dictionary keeps its entries in insertion order,
  so the store is an association list: \<^verbatim>\<open>items.get(k)\<close> is \<open>map_of items k\<close>,
  \<^verbatim>\<open>items[k] = v\<close> is \<open>AList.update k v items\<close> (overwrite in place, or append),
  \<^verbatim>\<open>del items[k]\<close> is \<open>AList.delete k items\<close>, \<^verbatim>\<open>k in items\<close> is \<open>k \<in> fst ` set items\<close> and
  \<^verbatim>\<open>items.keys()\<close> is \<open>map fst items\<close>.
\<close>

type_synonym 'f store = "(int \<times> 'f Item) list"

text \<open>\<^verbatim>\<open>max(iterable, default=d)\<close>: the default only when the iterable is empty.\<close>

fun py_max :: "int list \<Rightarrow> int \<Rightarrow> int" where
  "py_max [] d = d"
| "py_max (k # ks) d = fold max ks k"

section \<open>What a handler returns\<close>

text \<open>
  A handler returns either a \<^verbatim>\<open>Response(status_code=..., content=...)\<close> of its own, or a
  dictionary that the framework renders as JSON and sends with the status code declared on
  the route (\<^verbatim>\<open>status_code=\<close> in the decorator, 200 when there is none). \<open>Detail\<close> is not
  returned by any handler: it is the body \<^verbatim>\<open>{"detail": [...]}\<close> with which the framework
  itself answers a request that fails the declared validation; the list of offending
  parameters is not modelled.
\<close>

type_synonym bytes = "8 word list"

datatype 'f returned =
    Response nat string
  | ItemDict int "'f Item"
  | ReadDict int "'f Item option" "string option"
  | StatusDict string
  | FileDict "string option" nat
  | Detail

fun status_of :: "nat \<Rightarrow> 'f returned \<Rightarrow> nat" where
  "status_of default_code (Response code content) = code"
| "status_of default_code (ItemDict item_id item) = default_code"
| "status_of default_code (ReadDict item_id item q) = default_code"
| "status_of default_code (StatusDict s) = default_code"
| "status_of default_code (FileDict filename len) = default_code"
| "status_of default_code Detail = default_code"

text \<open>The value under the key \<^verbatim>\<open>"item_id"\<close> of what was returned, when there is one.\<close>

fun returned_id :: "'f returned \<Rightarrow> int option" where
  "returned_id (Response code content) = None"
| "returned_id (ItemDict item_id item) = Some item_id"
| "returned_id (ReadDict item_id item q) = Some item_id"
| "returned_id (StatusDict s) = None"
| "returned_id (FileDict filename len) = None"
| "returned_id Detail = None"

text \<open>
  The JSON renderer of the framework refuses a float that is not finite
  (\<^verbatim>\<open>allow_nan=False\<close>). A \<^verbatim>\<open>Response\<close> is sent as it is and is not rendered.
\<close>

definition finite_or_None :: "pyfloat option \<Rightarrow> bool" where
  "finite_or_None v = (case v of None \<Rightarrow> True | Some x \<Rightarrow> is_finite x)"

definition Item_compliant :: "pyfloat Item \<Rightarrow> bool" where
  "Item_compliant i = (finite_or_None (price i) \<and> finite_or_None (tax i))"

fun json_compliant :: "pyfloat returned \<Rightarrow> bool" where
  "json_compliant (Response code content) = True"
| "json_compliant (ItemDict item_id item) = Item_compliant item"
| "json_compliant (ReadDict item_id item q) =
     (case item of None \<Rightarrow> True | Some i \<Rightarrow> Item_compliant i)"
| "json_compliant (StatusDict s) = True"
| "json_compliant (FileDict filename len) = True"
| "json_compliant Detail = True"

section \<open>The handlers\<close>

text \<open>
  Each handler takes its validated parameters and the store, and returns what it returns
  together with the store it leaves. Headers written to the injected \<^verbatim>\<open>response\<close> parameter
  play no part in the status, the body or the store and are left out. In \<^verbatim>\<open>update_item\<close> the
  test \<^verbatim>\<open>if not stored\<close> holds exactly when \<^verbatim>\<open>items.get\<close> gave \<^verbatim>\<open>None\<close>, a model object
  being truthy.
\<close>

definition read_item :: "int \<Rightarrow> string option \<Rightarrow> 'f store \<Rightarrow> 'f returned \<times> 'f store" where
  "read_item item_id q items =
     (let item = map_of items item_id in (ReadDict item_id item q, items))"

definition create_item :: "'f Item \<Rightarrow> 'f store \<Rightarrow> 'f returned \<times> 'f store" where
  "create_item item items =
     (let new_id = py_max (map fst items) 0 + 1
      in (ItemDict new_id item, AList.update new_id item items))"

definition replace_item :: "int \<Rightarrow> 'f Item \<Rightarrow> 'f store \<Rightarrow> 'f returned \<times> 'f store" where
  "replace_item item_id item items = (ItemDict item_id item, AList.update item_id item items)"

definition update_item :: "int \<Rightarrow> 'f ItemUpdate \<Rightarrow> 'f store \<Rightarrow> 'f returned \<times> 'f store" where
  "update_item item_id item items =
     (case map_of items item_id of
        None \<Rightarrow> (Response 404 [], items)
      | Some stored \<Rightarrow>
          (let updated = copy_update stored (dict_exclude_unset item)
           in (ItemDict item_id updated, AList.update item_id updated items)))"

definition delete_item :: "int \<Rightarrow> 'f store \<Rightarrow> 'f returned \<times> 'f store" where
  "delete_item item_id items =
     (if item_id \<in> fst ` set items then (Response 204 [], AList.delete item_id items)
      else (Response 404 [], items))"

definition head_item :: "int \<Rightarrow> 'f store \<Rightarrow> 'f returned \<times> 'f store" where
  "head_item item_id items =
     (if item_id \<in> fst ` set items then (Response 200 [], items)
      else (Response 404 [], items))"

definition options_items :: "'f store \<Rightarrow> 'f returned \<times> 'f store" where
  "options_items items = (Response 204 [], items)"

text \<open>\<^verbatim>\<open>login\<close> and \<^verbatim>\<open>upload_file\<close> do not mention \<^verbatim>\<open>items\<close>: they are functions of their
  parameters alone.\<close>

definition login :: "string \<Rightarrow> string \<Rightarrow> 'f returned" where
  "login username password =
     (if username = ''admin'' \<and> password = ''secret'' then StatusDict ''success''
      else Response 401 ''Invalid credentials'')"

definition upload_file :: "string option \<Rightarrow> bytes \<Rightarrow> 'f returned" where
  "upload_file filename contents = FileDict filename (length contents)"

section \<open>The routes\<close>

text \<open>
  The nine decorated routes. A request carries an integer \<^verbatim>\<open>item_id\<close> and parsed models
  as bodies. Two declarations of app.py are checked by the framework before the handler is
  called, and answered with 422 when they fail, the handler not being called:
  \<^verbatim>\<open>q: str | None = Query(None, max_length=50)\<close>, and the required form fields
  \<^verbatim>\<open>username: str = Form(...)\<close> and \<^verbatim>\<open>password: str = Form(...)\<close>, for which an empty value
  counts as a missing one.
\<close>

datatype 'f request =
    GET_item int "string option"
  | POST_items "'f Item"
  | PUT_item int "'f Item"
  | PATCH_item int "'f ItemUpdate"
  | DELETE_item int
  | HEAD_item int
  | OPTIONS_items
  | POST_login string string
  | POST_uploadfile "string option" bytes

record 'f http =
  status :: nat
  body :: "'f returned"

definition valid_q :: "string option \<Rightarrow> bool" where
  "valid_q q = (case q of None \<Rightarrow> True | Some t \<Rightarrow> length t \<le> 50)"

definition unprocessable :: "pyfloat store \<Rightarrow> pyfloat http \<times> pyfloat store" where
  "unprocessable items = (\<lparr> status = 422, body = Detail \<rparr>, items)"

text \<open>
  The handler has run, and has left its store, when what it returned is rendered. When the
  renderer refuses it the answer is 500 with the text \<^verbatim>\<open>Internal Server Error\<close>.
\<close>

abbreviation server_error :: "pyfloat http" where
  "server_error \<equiv> \<lparr> status = 500, body = Response 500 ''Internal Server Error'' \<rparr>"

definition respond ::
  "nat \<Rightarrow> pyfloat returned \<times> pyfloat store \<Rightarrow> pyfloat http \<times> pyfloat store" where
  "respond default_code out =
     (if json_compliant (fst out)
      then \<lparr> status = status_of default_code (fst out), body = fst out \<rparr>
      else server_error,
      snd out)"

fun handle :: "pyfloat request \<Rightarrow> pyfloat store \<Rightarrow> pyfloat http \<times> pyfloat store" where
  "handle (GET_item item_id q) items =
     (if valid_q q then respond 200 (read_item item_id q items) else unprocessable items)"
| "handle (POST_items item) items = respond 201 (create_item item items)"
| "handle (PUT_item item_id item) items = respond 200 (replace_item item_id item items)"
| "handle (PATCH_item item_id item) items = respond 200 (update_item item_id item items)"
| "handle (DELETE_item item_id) items = respond 204 (delete_item item_id items)"
| "handle (HEAD_item item_id) items = respond 200 (head_item item_id items)"
| "handle OPTIONS_items items = respond 204 (options_items items)"
| "handle (POST_login username password) items =
     (if username = [] \<or> password = [] then unprocessable items
      else respond 200 (login username password, items))"
| "handle (POST_uploadfile filename contents) items =
     respond 200 (upload_file filename contents, items)"

text \<open>Consecutive \<^verbatim>\<open>POST /items/\<close> calls, each on the store the previous one left: what
  each call returned, in order.\<close>

fun create_all :: "'f Item list \<Rightarrow> 'f store \<Rightarrow> 'f returned list" where
  "create_all [] items = []"
| "create_all (item # rest) items =
     fst (create_item item items) # create_all rest (snd (create_item item items))"

text \<open>The invariant the data model asks of the store's keys.\<close>

definition keys_positive :: "'f store \<Rightarrow> bool" where
  "keys_positive items = (\<forall>k \<in> fst ` set items. 0 < k)"

section \<open>Sample data\<close>

text \<open>The item and the empty patch of the scenarios.\<close>

abbreviation pen :: "pyfloat Item" where
  "pen \<equiv> \<lparr> name = Some ''Pen'', description = None, price = Some (Finite 1.5), tax = None \<rparr>"

abbreviation no_fields :: "pyfloat ItemUpdate" where
  "no_fields \<equiv> \<lparr> upd_name = None, upd_description = None, upd_price = None, upd_tax = None,
     fields_set = {} \<rparr>"

section \<open>Store and identifier lemmas\<close>

lemma py_max_nonempty: "ks \<noteq> [] \<Longrightarrow> py_max ks d = Max (set ks)"
  by (cases ks) (simp_all add: Max.set_eq_fold [symmetric])

lemma py_max_ge: "k \<in> set ks \<Longrightarrow> k \<le> py_max ks d"
  by (cases ks) (auto simp: py_max_nonempty simp del: py_max.simps)

lemma new_id_fresh: "py_max (map fst items) 0 + 1 \<notin> fst ` set items"
proof
  assume "py_max (map fst items) 0 + 1 \<in> fst ` set items"
  then have "py_max (map fst items) 0 + 1 \<in> set (map fst items)" by simp
  then have "py_max (map fst items) 0 + 1 \<le> py_max (map fst items) 0" by (rule py_max_ge)
  then show False by simp
qed

lemma update_fresh_appends: "k \<notin> fst ` set al \<Longrightarrow> AList.update k v al = al @ [(k, v)]"
  by (induction al) auto

lemma new_id_value:
  "py_max (map fst items) 0 + 1 = (if items = [] then 1 else Max (fst ` set items) + 1)"
  by (cases items) (simp_all add: Max.set_eq_fold [symmetric])

lemma create_item_eq:
  "create_item item items =
     (ItemDict (py_max (map fst items) 0 + 1) item,
      items @ [(py_max (map fst items) 0 + 1, item)])"
  by (simp add: create_item_def Let_def update_fresh_appends [OF new_id_fresh])

lemma update_keys_present: "map_of al k = Some v \<Longrightarrow> map fst (AList.update k v' al) = map fst al"
  by (induction al) (auto split: if_splits)

lemma map_of_update_same: "map_of (AList.update k v al) k = Some v"
  by (simp add: update_conv')

lemma map_of_update_other: "k' \<noteq> k \<Longrightarrow> map_of (AList.update k v al) k' = map_of al k'"
  by (simp add: update_conv')

lemma update_eq_iff: "AList.update k v al = AList.update k v' al \<longleftrightarrow> v = v'"
  using update_eqD [of k v al v' al] by auto

section \<open>Rendering\<close>

lemma respond_snd: "snd (respond default_code out) = snd out"
  by (simp add: respond_def)

lemma respond_Response:
  "respond default_code (Response code content, items) =
     (\<lparr> status = code, body = Response code content \<rparr>, items)"
  by (simp add: respond_def)

lemma respond_ItemDict:
  "respond default_code (ItemDict item_id item, items) =
     (if Item_compliant item then \<lparr> status = default_code, body = ItemDict item_id item \<rparr>
      else server_error, items)"
  by (simp add: respond_def)


section \<open>Partial update\<close>

lemma copy_update_fields:
  "name (copy_update i (dict_exclude_unset u)) = (if ''name'' \<in> fields_set u then upd_name u else name i)"
  "description (copy_update i (dict_exclude_unset u)) =
     (if ''description'' \<in> fields_set u then upd_description u else description i)"
  "price (copy_update i (dict_exclude_unset u)) = (if ''price'' \<in> fields_set u then upd_price u else price i)"
  "tax (copy_update i (dict_exclude_unset u)) = (if ''tax'' \<in> fields_set u then upd_tax u else tax i)"
  by (simp_all add: copy_update_def dict_exclude_unset_def)

lemma update_item_found:
  "map_of items item_id = Some i \<Longrightarrow>
   update_item item_id u items =
     (ItemDict item_id (copy_update i (dict_exclude_unset u)),
      AList.update item_id (copy_update i (dict_exclude_unset u)) items)"
  by (simp add: update_item_def Let_def)

lemma update_item_missing:
  "item_id \<notin> fst ` set items \<Longrightarrow> update_item item_id u items = (Response 404 [], items)"
  using map_of_eq_None_iff [of items item_id] by (simp add: update_item_def)

lemma patch_store: 
  "map_of items item_id = Some i \<Longrightarrow>
   snd (handle (PATCH_item item_id u) items)
     = AList.update item_id (copy_update i (dict_exclude_unset u)) items"
  by (simp add: update_item_found respond_snd)

text \<open>
  Claim C1. For a stored \<^verbatim>\<open>Item\<close> \<open>i\<close> at \<open>item_id\<close> and a patch \<open>u\<close>, each of the four fields
  of the merged item, independently of the others, is the patch's value when the patch
  supplies that field (the field is in \<open>fields_set u\<close>) and the stored value otherwise;
  \<^verbatim>\<open>update_item\<close> returns the merged item and stores it under the same identifier, with the
  keys and every other entry of the store as they were. The route answers 200 with what
  was returned when the merged price and tax are finite, and 500 when one is not.
\<close>

theorem patch_merges_supplied_fields:
  assumes "map_of items item_id = Some i"
  shows "let merged = copy_update i (dict_exclude_unset u);
             items' = snd (update_item item_id u items)
         in name merged = (if ''name'' \<in> fields_set u then upd_name u else name i)
          \<and> description merged =
              (if ''description'' \<in> fields_set u then upd_description u else description i)
          \<and> price merged = (if ''price'' \<in> fields_set u then upd_price u else price i)
          \<and> tax merged = (if ''tax'' \<in> fields_set u then upd_tax u else tax i)
          \<and> update_item item_id u items = (ItemDict item_id merged, items')
          \<and> handle (PATCH_item item_id u) items =
              (if Item_compliant merged then \<lparr> status = 200, body = ItemDict item_id merged \<rparr>
               else server_error, items')
          \<and> map_of items' item_id = Some merged
          \<and> map fst items' = map fst items
          \<and> (\<forall>k. k \<noteq> item_id \<longrightarrow> map_of items' k = map_of items k)"
  using assms
  by (simp add: Let_def copy_update_fields update_item_found respond_ItemDict
      map_of_update_same map_of_update_other update_keys_present)

text \<open>
  The scenario of the specification: \<^verbatim>\<open>PATCH /items/1\<close> with \<^verbatim>\<open>{"price": 2.0}\<close> on the store
  holding the pen at 1.
\<close>

theorem patch_merges_supplied_fields_witness:
  "map_of [(1::int, pen)] 1 = Some pen
   \<and> handle (PATCH_item 1 (no_fields\<lparr> upd_price := Some (Finite 2), fields_set := {''price''} \<rparr>)) [(1, pen)]
       = (\<lparr> status = 200, body = ItemDict 1 (pen\<lparr> price := Some (Finite 2) \<rparr>) \<rparr>,
          [(1, pen\<lparr> price := Some (Finite 2) \<rparr>)])"
  using patch_merges_supplied_fields [where items = "[(1, pen)]" and item_id = 1 and i = pen
      and u = "no_fields\<lparr> upd_price := Some (Finite 2), fields_set := {''price''} \<rparr>"]
  by (simp add: Let_def update_item_def copy_update_def dict_exclude_unset_def respond_def unprocessable_def valid_q_def
      Item_compliant_def finite_or_None_def)

text \<open>
  Claim C6 says that a patch field supplied as null and a patch field left out give the
  same stored result. They do not: \<^verbatim>\<open>dict(exclude_unset=True)\<close> keeps a field that was
  supplied as null, and \<^verbatim>\<open>copy(update=...)\<close> then overwrites the stored value with it.
  On a pen stored with tax 0.1, the patch \<^verbatim>\<open>{"tax": null}\<close> and the patch \<^verbatim>\<open>{}\<close> leave
  different stores.
\<close>

theorem explicit_null_differs_from_omitted:
  "snd (handle (PATCH_item 1 (no_fields\<lparr> fields_set := {''tax''} \<rparr>)) [(1, pen\<lparr> tax := Some (Finite 0.1) \<rparr>)])
     \<noteq> snd (handle (PATCH_item 1 no_fields) [(1, pen\<lparr> tax := Some (Finite 0.1) \<rparr>)])"
  by (simp add: update_item_def copy_update_def dict_exclude_unset_def respond_def Let_def  unprocessable_def valid_q_def
      Item_compliant_def finite_or_None_def)

text \<open>
  Claim C6, amended. For an item \<open>i\<close> stored at \<open>item_id\<close> and each of the four fields: a
  patch that leaves the field out, and the same patch with the field supplied as null,
  leave the same store exactly when the stored field of \<open>i\<close> is already null: the
  first keeps the stored value, the second stores null.
\<close>

theorem explicit_null_versus_omitted:
  assumes "map_of items item_id = Some i"
  shows
    "(''name'' \<notin> fields_set u \<longrightarrow>
        (snd (handle (PATCH_item item_id
                (u\<lparr> upd_name := None, fields_set := insert ''name'' (fields_set u) \<rparr>)) items)
          = snd (handle (PATCH_item item_id u) items)) = (name i = None))
   \<and> (''description'' \<notin> fields_set u \<longrightarrow>
        (snd (handle (PATCH_item item_id
                (u\<lparr> upd_description := None,
                    fields_set := insert ''description'' (fields_set u) \<rparr>)) items)
          = snd (handle (PATCH_item item_id u) items)) = (description i = None))
   \<and> (''price'' \<notin> fields_set u \<longrightarrow>
        (snd (handle (PATCH_item item_id
                (u\<lparr> upd_price := None, fields_set := insert ''price'' (fields_set u) \<rparr>)) items)
          = snd (handle (PATCH_item item_id u) items)) = (price i = None))
   \<and> (''tax'' \<notin> fields_set u \<longrightarrow>
        (snd (handle (PATCH_item item_id
                (u\<lparr> upd_tax := None, fields_set := insert ''tax'' (fields_set u) \<rparr>)) items)
          = snd (handle (PATCH_item item_id u) items)) = (tax i = None))"
  unfolding patch_store [OF assms] update_eq_iff
  by (auto simp: copy_update_def dict_exclude_unset_def)

text \<open>
  The tax field: on a pen stored with tax 0.1 the null patch stores a null tax and the
  empty patch keeps 0.1; on a pen stored without tax the two agree.
\<close>

theorem explicit_null_versus_omitted_witness:
  "map_of [(1::int, pen\<lparr> tax := Some (Finite 0.1) \<rparr>)] 1 = Some (pen\<lparr> tax := Some (Finite 0.1) \<rparr>)
   \<and> snd (handle (PATCH_item 1 (no_fields\<lparr> fields_set := {''tax''} \<rparr>)) [(1, pen\<lparr> tax := Some (Finite 0.1) \<rparr>)])
       = [(1, pen)]
   \<and> snd (handle (PATCH_item 1 no_fields) [(1, pen\<lparr> tax := Some (Finite 0.1) \<rparr>)])
       = [(1, pen\<lparr> tax := Some (Finite 0.1) \<rparr>)]
   \<and> snd (handle (PATCH_item 1 (no_fields\<lparr> fields_set := {''tax''} \<rparr>)) [(1, pen)])
       = snd (handle (PATCH_item 1 no_fields) [(1, pen)])"
  using explicit_null_versus_omitted [where items = "[(1, pen\<lparr> tax := Some (Finite 0.1) \<rparr>)]" and item_id = 1
      and i = "pen\<lparr> tax := Some (Finite 0.1) \<rparr>" and u = no_fields]
    explicit_null_versus_omitted [where items = "[(1, pen)]" and item_id = 1 and i = pen and u = no_fields]
  by (simp add: update_item_def copy_update_def dict_exclude_unset_def respond_def Let_def  unprocessable_def valid_q_def
      Item_compliant_def finite_or_None_def)

text \<open>
  Claim C9. For an item stored at \<open>item_id\<close>, a patch that supplies \<^verbatim>\<open>name\<close> or \<^verbatim>\<open>price\<close> as
  null makes \<^verbatim>\<open>update_item\<close> return the merged item and store it at \<open>item_id\<close>; its
  \<^verbatim>\<open>name\<close> (respectively \<^verbatim>\<open>price\<close>) is null, so the stored entry does not satisfy the schema
  of \<^verbatim>\<open>Item\<close>. The route answers 200 with what was returned when the merged price and tax
  are finite, and 500 when one is not.
\<close>

theorem patch_null_required_field:
  assumes "map_of items item_id = Some i"
    and "(''name'' \<in> fields_set u \<and> upd_name u = None)
       \<or> (''price'' \<in> fields_set u \<and> upd_price u = None)"
  shows "let merged = copy_update i (dict_exclude_unset u)
         in update_item item_id u items = (ItemDict item_id merged, AList.update item_id merged items)
          \<and> handle (PATCH_item item_id u) items =
              (if Item_compliant merged then \<lparr> status = 200, body = ItemDict item_id merged \<rparr>
               else server_error,
               AList.update item_id merged items)
          \<and> map_of (AList.update item_id merged items) item_id = Some merged
          \<and> (''name'' \<in> fields_set u \<and> upd_name u = None \<longrightarrow> name merged = None)
          \<and> (''price'' \<in> fields_set u \<and> upd_price u = None \<longrightarrow> price merged = None)
          \<and> \<not> Item_schema merged"
  using assms
  by (auto simp: Let_def update_item_found respond_ItemDict map_of_update_same copy_update_fields
      Item_schema_def)

text \<open>
  The pen satisfies the schema; after \<^verbatim>\<open>PATCH /items/1\<close> with \<^verbatim>\<open>{"name": null}\<close> the entry
  at 1 has a null name and does not.
\<close>

theorem patch_null_required_field_witness:
  "Item_schema pen
   \<and> handle (PATCH_item 1 (no_fields\<lparr> fields_set := {''name''} \<rparr>)) [(1, pen)]
       = (\<lparr> status = 200, body = ItemDict 1 (pen\<lparr> name := None \<rparr>) \<rparr>, [(1, pen\<lparr> name := None \<rparr>)])
   \<and> \<not> Item_schema (pen\<lparr> name := None \<rparr>)"
  using patch_null_required_field [where items = "[(1, pen)]" and item_id = 1 and i = pen
      and u = "no_fields\<lparr> fields_set := {''name''} \<rparr>"]
  by (simp add: Item_schema_def copy_update_def dict_exclude_unset_def Let_def respond_def unprocessable_def valid_q_def
      Item_compliant_def finite_or_None_def)

section \<open>Absent identifiers\<close>

text \<open>
  Claim C3. For an identifier that is not a key of the store, \<^verbatim>\<open>PATCH\<close>, \<^verbatim>\<open>DELETE\<close> and
  \<^verbatim>\<open>HEAD\<close> each answer 404 and leave the store exactly as it was.
\<close>

theorem missing_id_gives_404:
  assumes "item_id \<notin> fst ` set items"
  shows "handle (PATCH_item item_id u) items = (\<lparr> status = 404, body = Response 404 [] \<rparr>, items)
       \<and> handle (DELETE_item item_id) items = (\<lparr> status = 404, body = Response 404 [] \<rparr>, items)
       \<and> handle (HEAD_item item_id) items = (\<lparr> status = 404, body = Response 404 [] \<rparr>, items)"
  using assms by (simp add: update_item_missing delete_item_def head_item_def respond_Response)

text \<open>
  Identifier 2 on the store holding only the pen at 1.
\<close>

theorem missing_id_gives_404_witness:
  "(2::int) \<notin> fst ` set [(1::int, pen)]
   \<and> handle (PATCH_item 2 no_fields) [(1, pen)]
       = (\<lparr> status = 404, body = Response 404 [] \<rparr>, [(1, pen)])
   \<and> handle (DELETE_item 2) [(1, pen)] = (\<lparr> status = 404, body = Response 404 [] \<rparr>, [(1, pen)])
   \<and> handle (HEAD_item 2) [(1, pen)] = (\<lparr> status = 404, body = Response 404 [] \<rparr>, [(1, pen)])"
  using missing_id_gives_404 [where item_id = 2 and items = "[(1, pen)]" and u = no_fields] by simp




section \<open>Identifier assignment\<close>

lemma create_all_ids_gt:
  "r \<in> set (create_all bodies items) \<Longrightarrow> \<exists>k. returned_id r = Some k \<and> (\<forall>j \<in> fst ` set items. j < k)"
proof (induction bodies arbitrary: items)
  case Nil
  then show ?case by simp
next
  case (Cons b bodies)
  let ?n = "py_max (map fst items) 0 + 1"
  have gt: "\<forall>j \<in> fst ` set items. j < ?n"
  proof
    fix j assume "j \<in> fst ` set items"
    then have "j \<in> set (map fst items)" by simp
    then have "j \<le> py_max (map fst items) 0" by (rule py_max_ge)
    then show "j < ?n" by simp
  qed
  from Cons.prems consider "r = ItemDict ?n b" | "r \<in> set (create_all bodies (items @ [(?n, b)]))"
    by (auto simp: create_item_eq)
  then show ?case
  proof cases
    case 1
    then show ?thesis using gt by simp
  next
    case 2
    from Cons.IH [OF 2] obtain k where k: "returned_id r = Some k"
      "\<forall>j \<in> fst ` set (items @ [(?n, b)]). j < k" by blast
    then have "?n < k" by simp
    with gt k show ?thesis by fastforce
  qed
qed

lemma create_all_distinct: "distinct (map returned_id (create_all bodies items))"
proof (induction bodies arbitrary: items)
  case Nil
  then show ?case by simp
next
  case (Cons b bodies)
  let ?n = "py_max (map fst items) 0 + 1"
  have "Some ?n \<notin> returned_id ` set (create_all bodies (items @ [(?n, b)]))"
  proof
    assume "Some ?n \<in> returned_id ` set (create_all bodies (items @ [(?n, b)]))"
    then obtain r where r: "r \<in> set (create_all bodies (items @ [(?n, b)]))" "returned_id r = Some ?n"
      by force
    from create_all_ids_gt [OF r(1)] r(2) show False by auto
  qed
  then show ?case using Cons.IH by (simp add: create_item_eq)
qed

lemma create_all_Some: "None \<notin> returned_id ` set (create_all bodies items)"
  using create_all_ids_gt by force

text \<open>
  Claim C2. \<^verbatim>\<open>create_item\<close> assigns the maximum of the store's keys plus 1, or 1 on the
  empty store; it returns that identifier with the item, and appends the item under it.
  The identifier is not a key of the store the call found. The route answers 201 with
  what was returned when the item's price and tax are finite, and 500 when one is not.
  The identifiers returned by any run of consecutive creates are pairwise distinct (and
  every call returns one). Posting a pen with a finite price \<open>p\<close>, no description and no
  tax on the empty store is answered 201 with identifier 1 and description and tax null.
\<close>

theorem create_assigns_next_id:
  "(let new_id = (if items = [] then 1 else Max (fst ` set items) + 1)
    in create_item item items = (ItemDict new_id item, items @ [(new_id, item)])
     \<and> handle (POST_items item) items =
         (if Item_compliant item then \<lparr> status = 201, body = ItemDict new_id item \<rparr>
          else server_error, items @ [(new_id, item)])
     \<and> new_id \<notin> fst ` set items
     \<and> map_of (items @ [(new_id, item)]) new_id = Some item)
   \<and> distinct (map returned_id (create_all bodies items))
   \<and> None \<notin> returned_id ` set (create_all bodies items)
   \<and> handle (POST_items \<lparr> name = Some ''Pen'', description = None, price = Some (Finite p), tax = None \<rparr>) []
       = (\<lparr> status = 201,
            body = ItemDict 1 \<lparr> name = Some ''Pen'', description = None, price = Some (Finite p), tax = None \<rparr> \<rparr>,
          [(1, \<lparr> name = Some ''Pen'', description = None, price = Some (Finite p), tax = None \<rparr>)])"
proof -
  let ?n = "py_max (map fst items) 0 + 1"
  have n: "(if items = [] then 1 else Max (fst ` set items) + 1) = ?n"
    by (simp only: new_id_value)
  have fresh: "?n \<notin> fst ` set items" by (rule new_id_fresh)
  have create: "create_item item items = (ItemDict ?n item, items @ [(?n, item)])"
    by (rule create_item_eq)
  have post: "handle (POST_items item) items =
      (if Item_compliant item then \<lparr> status = 201, body = ItemDict ?n item \<rparr>
       else server_error, items @ [(?n, item)])"
    by (simp add: create_item_eq respond_ItemDict)
  have stored: "map_of (items @ [(?n, item)]) ?n = Some item"
    using update_fresh_appends [OF fresh, of item] map_of_update_same [of ?n item items]
    by simp
  have pen: "handle (POST_items \<lparr> name = Some ''Pen'', description = None, price = Some (Finite p), tax = None \<rparr>) []
       = (\<lparr> status = 201,
            body = ItemDict 1 \<lparr> name = Some ''Pen'', description = None, price = Some (Finite p), tax = None \<rparr> \<rparr>,
          [(1, \<lparr> name = Some ''Pen'', description = None, price = Some (Finite p), tax = None \<rparr>)])"
    by (simp add: create_item_def respond_def Item_compliant_def finite_or_None_def)
  show ?thesis
    unfolding n Let_def
    using fresh create post stored pen create_all_distinct [of bodies items]
      create_all_Some [of bodies items]
    by (intro conjI)
qed

text \<open>
  The pen at 1.5 on the empty store, and three creates in a row returning 1, 2 and 3.
\<close>

theorem create_assigns_next_id_witness:
  "handle (POST_items pen) [] = (\<lparr> status = 201, body = ItemDict 1 pen \<rparr>, [(1, pen)])
   \<and> map returned_id (create_all [pen, pen, pen] []) = [Some 1, Some 2, Some 3]
   \<and> distinct (map returned_id (create_all [pen, pen, pen] []))"
  using create_assigns_next_id [where items = "[]" and item = pen and bodies = "[pen, pen, pen]" and p = "1.5"]
  by (simp add: create_item_def respond_def unprocessable_def valid_q_def
      Item_compliant_def finite_or_None_def)

lemma create_returns: "fst (create_item item items) = ItemDict (py_max (map fst items) 0 + 1) item"
  by (simp add: create_item_eq)

lemma max_key_deleted_next_id:
  assumes "items \<noteq> []" and m: "m = Max (fst ` set items)"
  shows "py_max (map fst (AList.delete m items)) 0 + 1 = m
     \<longleftrightarrow> m - 1 \<in> fst ` set items \<or> (AList.delete m items = [] \<and> m = 1)"
proof -
  let ?K = "fst ` set items" and ?K' = "fst ` set (AList.delete m items)"
  have fin: "finite ?K" by simp
  have ne: "?K \<noteq> {}" using assms(1) by simp
  have m_in: "m \<in> ?K" unfolding m using fin ne by (rule Max_in)
  have K': "?K' = ?K - {m}"
    using delete_keys [of m items] by (metis list.set_map set_removeAll)
  show ?thesis
  proof (cases "AList.delete m items = []")
    case True
    then have "?K - {m} = {}" using K' by simp
    then have "m - 1 \<notin> ?K" by auto
    with True show ?thesis by simp
  next
    case False
    then have ne': "?K' \<noteq> {}" by simp
    have fin': "finite ?K'" by simp
    have pm: "py_max (map fst (AList.delete m items)) 0 = Max ?K'"
      using False by (simp add: py_max_nonempty del: py_max.simps)
    have in': "Max ?K' \<in> ?K'" using fin' ne' by (rule Max_in)
    have "Max ?K' \<in> ?K" and neq: "Max ?K' \<noteq> m" using in' K' by simp_all
    then have "Max ?K' \<le> Max ?K" using fin by (intro Max_ge)
    then have lt: "Max ?K' < m" using neq m by simp
    have "Max ?K' = m - 1 \<longleftrightarrow> m - 1 \<in> ?K"
    proof
      assume "Max ?K' = m - 1"
      then show "m - 1 \<in> ?K" using in' K' by auto
    next
      assume "m - 1 \<in> ?K"
      then have "m - 1 \<in> ?K'" using K' by simp
      then have "m - 1 \<le> Max ?K'" using fin' by (intro Max_ge)
      then show "Max ?K' = m - 1" using lt by simp
    qed
    moreover have "(Max ?K' + 1 = m) = (Max ?K' = m - 1)" by auto
    ultimately show ?thesis using False by (simp only: pm simp_thms)
  qed
qed

text \<open>
  Claim C10 says that, in every store, deleting the entry with the maximum key makes the
  next create return that key again. Three creates and \<^verbatim>\<open>DELETE /items/2\<close> leave the keys
  1 and 3; deleting 3, the maximum, is answered with 204, and the next create returns 2.
\<close>

theorem deleted_max_key_not_reused:
  "snd (handle (DELETE_item 2) (snd (handle (POST_items pen) (snd (handle (POST_items pen)
      (snd (handle (POST_items pen) [])))))))
     = [(1, pen), (3, pen)]
   \<and> Max (fst ` set [(1::int, pen), (3, pen)]) = 3
   \<and> handle (DELETE_item 3) [(1, pen), (3, pen)]
       = (\<lparr> status = 204, body = Response 204 [] \<rparr>, [(1, pen)])
   \<and> returned_id (body (fst (handle (POST_items pen) [(1, pen)]))) = Some 2"
  by (simp add: create_item_def delete_item_def respond_def unprocessable_def valid_q_def
      Item_compliant_def finite_or_None_def)

text \<open>
  Claim C10, amended. Identifiers of deleted entries are reused. In every store, when
  the entry that a create has just added is deleted, the store is back as it was and the
  next create returns the same identifier again. When the entry with the maximum key \<open>m\<close>
  of a non-empty store is deleted, the next create returns \<open>m\<close> again exactly when
  \<open>m - 1\<close> is a key, or no entry remains and \<open>m = 1\<close>. So the identifiers returned by
  creates interleaved with deletes need not be distinct.
\<close>

theorem deleted_id_reuse:
  "(let new_id = py_max (map fst items) 0 + 1;
        created = snd (create_item item items)
    in fst (create_item item items) = ItemDict new_id item
     \<and> delete_item new_id created = (Response 204 [], items)
     \<and> fst (create_item item' (snd (delete_item new_id created))) = ItemDict new_id item')
   \<and> (items \<noteq> [] \<longrightarrow>
       (let m = Max (fst ` set items);
            remaining = snd (delete_item m items)
        in fst (delete_item m items) = Response 204 []
         \<and> (returned_id (fst (create_item item' remaining)) = Some m
              \<longleftrightarrow> m - 1 \<in> fst ` set items \<or> (remaining = [] \<and> m = 1))))"
proof -
  let ?n = "py_max (map fst items) 0 + 1"
  have del: "delete_item ?n (AList.update ?n item items) = (Response 204 [], items)"
    using new_id_fresh [of items] by (simp add: delete_item_def delete_update_same dom_update)
  have a: "fst (create_item item items) = ItemDict ?n item
     \<and> delete_item ?n (snd (create_item item items)) = (Response 204 [], items)
     \<and> fst (create_item item' (snd (delete_item ?n (snd (create_item item items))))) = ItemDict ?n item'"
    by (simp add: create_item_def Let_def del)
  have b: "fst (delete_item m items) = Response 204 []
         \<and> (returned_id (fst (create_item item' (snd (delete_item m items)))) = Some m
              \<longleftrightarrow> m - 1 \<in> fst ` set items \<or> (snd (delete_item m items) = [] \<and> m = 1))"
    if "items \<noteq> []" "m = Max (fst ` set items)" for m
  proof -
    have "m \<in> fst ` set items" using that Max_in [of "fst ` set items"] by simp
    then have d: "delete_item m items = (Response 204 [], AList.delete m items)"
      by (simp add: delete_item_def)
    show ?thesis
      using max_key_deleted_next_id [OF that] by (simp add: d create_returns)
  qed
  show ?thesis unfolding Let_def using a b [OF _ refl] by blast
qed

text \<open>
  Create yields 1, delete 1, create yields 1 again; and on the keys 1 and 2, deleting 2
  makes the next create return 2.
\<close>

theorem deleted_id_reuse_witness:
  "fst (create_item pen []) = ItemDict 1 pen
   \<and> delete_item 1 (snd (create_item pen [])) = (Response 204 [], [])
   \<and> fst (create_item pen (snd (delete_item 1 (snd (create_item pen []))))) = ItemDict 1 pen
   \<and> Max (fst ` set [(1::int, pen), (2, pen)]) = 2
   \<and> returned_id (fst (create_item pen (snd (delete_item 2 [(1, pen), (2, pen)])))) = Some 2"
  using deleted_id_reuse [where items = "[]" and item = pen and item' = pen]
    deleted_id_reuse [where items = "[(1, pen), (2, pen)]" and item = pen and item' = pen]
  by (simp add: Let_def create_item_def delete_item_def respond_def unprocessable_def valid_q_def
      Item_compliant_def finite_or_None_def)

section \<open>Positive keys\<close>

lemma new_id_positive: "keys_positive items \<Longrightarrow> 0 < py_max (map fst items) 0 + 1"
proof (cases items)
  case Nil
  then show ?thesis by simp
next
  case (Cons e rest)
  assume "keys_positive items"
  then have "0 < fst e" using Cons by (simp add: keys_positive_def)
  moreover have "fst e \<le> py_max (map fst items) 0"
    by (rule py_max_ge) (simp add: Cons)
  ultimately show ?thesis by simp
qed

lemma keys_positive_update:
  "keys_positive (AList.update k v items) \<longleftrightarrow> 0 < k \<and> keys_positive items"
  by (simp add: keys_positive_def dom_update)

lemma keys_positive_delete: "keys_positive items \<Longrightarrow> keys_positive (AList.delete k items)"
  unfolding keys_positive_def using dom_delete_subset [of k items] by blast

lemma keys_positive_present: "keys_positive items \<Longrightarrow> map_of items k = Some v \<Longrightarrow> 0 < k"
  by (auto simp: keys_positive_def dest!: map_of_SomeD)

text \<open>
  Claim C5 says that every operation keeps all keys of the store strictly positive, also
  \<^verbatim>\<open>PUT\<close> at an identifier that is zero or negative. It does not: \<^verbatim>\<open>replace_item\<close> stores
  under whatever integer the path carries, so \<^verbatim>\<open>PUT /items/0\<close> on the empty store, whose
  keys are all positive, leaves a store with the key 0.
\<close>

theorem put_nonpositive_key_breaks_invariant:
  "keys_positive ([] :: pyfloat store) \<and> \<not> keys_positive (snd (handle (PUT_item 0 pen) []))"
  by (simp add: keys_positive_def replace_item_def respond_def unprocessable_def valid_q_def
      Item_compliant_def finite_or_None_def)

text \<open>
  Claim C5, amended. On a store whose keys are all strictly positive, every operation
  other than \<^verbatim>\<open>PUT\<close> leaves a store whose keys are all strictly positive, and
  \<^verbatim>\<open>PUT /items/{item_id}\<close> does so exactly when \<open>item_id\<close> is strictly positive.
\<close>

theorem keys_positive_preserved_iff:
  assumes "keys_positive items"
  shows "keys_positive (snd (handle req items))
     \<longleftrightarrow> (case req of PUT_item item_id item \<Rightarrow> 0 < item_id | _ \<Rightarrow> True)"
proof (cases req)
  case (GET_item item_id q)
  then show ?thesis using assms by (simp add: read_item_def respond_snd unprocessable_def)
next
  case (POST_items item)
  then show ?thesis using assms new_id_positive [OF assms]
    by (simp add: create_item_def respond_snd keys_positive_update Let_def)
next
  case (PUT_item item_id item)
  then show ?thesis using assms
    by (simp add: replace_item_def respond_snd keys_positive_update)
next
  case (PATCH_item item_id u)
  then show ?thesis using assms
    by (auto simp: update_item_def respond_snd keys_positive_update Let_def
        split: option.splits dest: keys_positive_present)
next
  case (DELETE_item item_id)
  then show ?thesis using assms
    by (simp add: delete_item_def respond_snd keys_positive_delete)
next
  case (HEAD_item item_id)
  then show ?thesis using assms by (simp add: head_item_def respond_snd)
next
  case OPTIONS_items
  then show ?thesis using assms by (simp add: options_items_def respond_snd)
next
  case (POST_login username password)
  then show ?thesis using assms by (simp add: respond_snd unprocessable_def)
next
  case (POST_uploadfile filename contents)
  then show ?thesis using assms by (simp add: respond_snd unprocessable_def)
qed

text \<open>
  On the store holding the pen at 1: \<^verbatim>\<open>PUT\<close> at 2 and \<^verbatim>\<open>POST\<close> keep the keys positive,
  \<^verbatim>\<open>PUT\<close> at -5 does not.
\<close>

theorem keys_positive_preserved_iff_witness:
  "keys_positive [(1, pen)]
   \<and> keys_positive (snd (handle (PUT_item 2 pen) [(1, pen)]))
   \<and> keys_positive (snd (handle (POST_items pen) [(1, pen)]))
   \<and> \<not> keys_positive (snd (handle (PUT_item (- 5) pen) [(1, pen)]))"
  using keys_positive_preserved_iff [where items = "[(1, pen)]" and req = "PUT_item 2 pen"]
    keys_positive_preserved_iff [where items = "[(1, pen)]" and req = "PUT_item (- 5) pen"]
    keys_positive_preserved_iff [where items = "[(1, pen)]" and req = "POST_items pen"]
  by (simp add: keys_positive_def respond_def unprocessable_def valid_q_def
      Item_compliant_def finite_or_None_def)

section \<open>Replacement\<close>






section \<open>Login\<close>

text \<open>
  Claim C8 says that every pair of form strings other than \<^verbatim>\<open>admin\<close> and \<^verbatim>\<open>secret\<close> is
  answered 401. An empty value of a required form field counts as missing: with an empty
  password, or an empty username, the answer is 422 and \<^verbatim>\<open>login\<close> is not called.
\<close>

theorem login_empty_field_gives_422:
  "handle (POST_login ''admin'' []) [] = (\<lparr> status = 422, body = Detail \<rparr>, [])
   \<and> handle (POST_login [] ''secret'') [] = (\<lparr> status = 422, body = Detail \<rparr>, [])
   \<and> status (fst (handle (POST_login ''admin'' []) [])) \<noteq> 401"
  by (simp add: unprocessable_def)

text \<open>
  Claim C8, amended. \<^verbatim>\<open>POST /login/\<close> with an empty username or password is answered 422.
  With two non-empty strings it answers 200 with \<^verbatim>\<open>{"status": "success"}\<close> when the username
  is \<^verbatim>\<open>admin\<close> and the password is \<^verbatim>\<open>secret\<close>, and 401 with the text \<^verbatim>\<open>Invalid credentials\<close>
  in every other case. The answer is 200 if and only if the pair is \<^verbatim>\<open>admin\<close> and
  \<^verbatim>\<open>secret\<close>; the store is left as it was, and the answer is the same on any two stores.
\<close>

theorem login_literal_credentials:
  "fst (handle (POST_login username password) items) =
     (if username = [] \<or> password = [] then \<lparr> status = 422, body = Detail \<rparr>
      else if username = ''admin'' \<and> password = ''secret''
      then \<lparr> status = 200, body = StatusDict ''success'' \<rparr>
      else \<lparr> status = 401, body = Response 401 ''Invalid credentials'' \<rparr>)
   \<and> (status (fst (handle (POST_login username password) items)) = 200
        \<longleftrightarrow> username = ''admin'' \<and> password = ''secret'')
   \<and> snd (handle (POST_login username password) items) = items
   \<and> fst (handle (POST_login username password) items)
        = fst (handle (POST_login username password) items')"
  by (auto simp: respond_def login_def unprocessable_def)

text \<open>
  The scenario of the specification: the right pair, and a wrong password; and an empty
  password.
\<close>

theorem login_literal_credentials_witness:
  "handle (POST_login ''admin'' ''secret'') [(1, pen)]
     = (\<lparr> status = 200, body = StatusDict ''success'' \<rparr>, [(1, pen)])
   \<and> handle (POST_login ''admin'' ''letmein'') [(1, pen)]
     = (\<lparr> status = 401, body = Response 401 ''Invalid credentials'' \<rparr>, [(1, pen)])
   \<and> handle (POST_login ''admin'' []) [(1, pen)]
     = (\<lparr> status = 422, body = Detail \<rparr>, [(1, pen)])"
  using login_literal_credentials [where username = "''admin''" and password = "''secret''" and items = "[(1, pen)]"
      and items' = "[]"]
    login_literal_credentials [where username = "''admin''" and password = "''letmein''" and items = "[(1, pen)]"
      and items' = "[]"]
    login_literal_credentials [where username = "''admin''" and password = "[]" and items = "[(1, pen)]"
      and items' = "[]"]
  by (simp add: login_def respond_def unprocessable_def)

end
